theory Spec2Isabelle
  imports Complex_Main "HOL-Library.AList" "HOL-Library.Multiset"
begin

section \<open>Future Skills Lab: a shallow embedding of models.py\<close>

text \<open>
  The development follows \<^verbatim>\<open>src/models.py\<close>. Conventions of the embedding:

  \<^item> A Python \<^verbatim>\<open>str\<close> is a \<^typ>\<open>string\<close>; one \<^typ>\<open>char\<close> stands for one code
    point below 256, so the accented letters of the Portuguese literals are written
    by their Latin-1 code (\<^verbatim>\<open>CHR 0xE7\<close> is c-cedilla).
  \<^item> A Python \<^verbatim>\<open>dict\<close> is an association list in insertion order; a key occurs
    once, \<^verbatim>\<open>d[k] = v\<close> overwrites in place or appends at the end.
  \<^item> A Python \<^verbatim>\<open>int\<close> is an \<^typ>\<open>int\<close>.
  \<^item> A Python \<^verbatim>\<open>float\<close> is idealised as an exact rational number (\<^typ>\<open>rat\<close>):
    the arithmetic expressions keep the shape and the evaluation order of the source,
    the rounding of binary64 is not modelled.
  \<^item> The console is a list of pending input lines and a list of the texts written so
    far (one entry per call of \<^verbatim>\<open>print\<close>, without its final newline, and one per
    prompt of \<^verbatim>\<open>input\<close>). Reading past the last line raises \<^verbatim>\<open>EOFError\<close>.
\<close>

subsection \<open>Python primitives used by the module\<close>

datatype erro = EOFError

definition dict_get :: "(string \<times> 'v) list \<Rightarrow> string \<Rightarrow> 'v \<Rightarrow> 'v" where
  "dict_get d k padrao = (case map_of d k of None \<Rightarrow> padrao | Some v \<Rightarrow> v)"

definition dict_set :: "(string \<times> 'v) list \<Rightarrow> string \<Rightarrow> 'v \<Rightarrow> (string \<times> 'v) list" where
  "dict_set d k v = AList.update k v d"

definition py_sum :: "rat list \<Rightarrow> rat" where
  "py_sum xs = foldl (+) 0 xs"

text \<open>\<^verbatim>\<open>xs[i]\<close>: a negative index counts from the end, \<open>None\<close> is \<^verbatim>\<open>IndexError\<close>.\<close>

definition py_index :: "'a list \<Rightarrow> int \<Rightarrow> 'a option" where
  "py_index xs i =
     (if 0 \<le> i then (if i < int (length xs) then Some (xs ! nat i) else None)
      else (if - int (length xs) \<le> i then Some (xs ! nat (int (length xs) + i)) else None))"

text \<open>\<^verbatim>\<open>xs[:k]\<close>: a negative bound drops that many elements from the end.\<close>

definition py_slice_ate :: "'a list \<Rightarrow> int \<Rightarrow> 'a list" where
  "py_slice_ate xs k =
     (if 0 \<le> k then take (nat k) xs else take (length xs - nat (- k)) xs)"

fun py_join :: "string \<Rightarrow> string list \<Rightarrow> string" where
  "py_join sep [] = []"
| "py_join sep [x] = x"
| "py_join sep (x # y # ys) = x @ sep @ py_join sep (y # ys)"

text \<open>\<^verbatim>\<open>str.isspace\<close> on the code points below 256.\<close>

definition py_isspace :: "char \<Rightarrow> bool" where
  "py_isspace c = (of_char c \<in> {9, 10, 11, 12, 13, 28, 29, 30, 31, 32, 133, 160 :: nat})"

definition py_strip :: "string \<Rightarrow> string" where
  "py_strip s = rev (dropWhile py_isspace (rev (dropWhile py_isspace s)))"

text \<open>
  \<^verbatim>\<open>int(s)\<close> in base ten: surrounding white space, an optional sign, then decimal
  digits, where single underscores may separate digits. \<open>None\<close> is \<^verbatim>\<open>ValueError\<close>.
\<close>

definition digito :: "char \<Rightarrow> nat option" where
  "digito c = (let n = (of_char c :: nat) in if 48 \<le> n \<and> n \<le> 57 then Some (n - 48) else None)"

fun py_digitos_resto :: "nat \<Rightarrow> string \<Rightarrow> nat option" where
  "py_digitos_resto acc [] = Some acc"
| "py_digitos_resto acc [c] =
     (case digito c of None \<Rightarrow> None | Some v \<Rightarrow> Some (10 * acc + v))"
| "py_digitos_resto acc (c # d # cs) =
     (if c = CHR ''_'' then
        (case digito d of None \<Rightarrow> None | Some v \<Rightarrow> py_digitos_resto (10 * acc + v) cs)
      else
        (case digito c of None \<Rightarrow> None | Some v \<Rightarrow> py_digitos_resto (10 * acc + v) (d # cs)))"

definition py_digitos :: "string \<Rightarrow> nat option" where
  "py_digitos s =
     (case s of [] \<Rightarrow> None
      | c # cs \<Rightarrow> (case digito c of None \<Rightarrow> None | Some v \<Rightarrow> py_digitos_resto v cs))"

definition py_int :: "string \<Rightarrow> int option" where
  "py_int s =
     (case py_strip s of [] \<Rightarrow> None
      | c # cs \<Rightarrow>
          if c = CHR ''-'' then map_option (\<lambda>n. - int n) (py_digitos cs)
          else if c = CHR ''+'' then map_option int (py_digitos cs)
          else map_option int (py_digitos (c # cs)))"

text \<open>\<^verbatim>\<open>str(n)\<close> for a natural number, and the format \<^verbatim>\<open>{x:.1f}\<close>.\<close>

function str_nat :: "nat \<Rightarrow> string" where
  "str_nat n =
     (if n < 10 then [char_of (48 + n)]
      else str_nat (n div 10) @ [char_of (48 + n mod 10)])"
  by pat_completeness auto
termination
  by (relation "measure id") auto

declare str_nat.simps [simp del]

text \<open>Rounding to the nearest integer, a tie going to the even neighbour.\<close>

definition arredonda_par :: "rat \<Rightarrow> nat" where
  "arredonda_par x =
     (let (a, b) = quotient_of x;
          q = nat (a div b);
          r = a mod b
      in if 2 * r < b then q
         else if b < 2 * r then q + 1
         else if even q then q else q + 1)"

definition fmt_1f :: "rat \<Rightarrow> string" where
  "fmt_1f x =
     (let t = arredonda_par (\<bar>x\<bar> * 10)
      in (if x < 0 then ''-'' else []) @ str_nat (t div 10) @ ''.'' @ str_nat (t mod 10))"

text \<open>
  \<^verbatim>\<open>list.sort(reverse=True, key=k)\<close>: descending by key, elements of equal key stay in
  their original order. It is the stable ascending sort on the negated key.
\<close>

definition py_sort_reverse :: "('a \<Rightarrow> rat) \<Rightarrow> 'a list \<Rightarrow> 'a list" where
  "py_sort_reverse k xs = sort_key (\<lambda>x. - k x) xs"

subsection \<open>The data classes\<close>

record Competencia =
  nome :: string
  categoria :: string
  descricao :: string

record Carreira =
  nome :: string
  competencias_requeridas :: "(string \<times> rat) list"
  trilha :: "string list"

record Perfil =
  nome :: string
  competencias :: "(string \<times> int) list"

definition calcular_pontuacao :: "Carreira \<Rightarrow> (string \<times> int) list \<Rightarrow> rat" where
  "calcular_pontuacao self competencias_perfil =
     (let soma_pesos = py_sum (map snd (competencias_requeridas self))
      in if soma_pesos = 0 then 0
         else
           (let total =
                  foldl (\<lambda>total (comp, peso).
                           total + (of_int (dict_get competencias_perfil comp 0) / 5) * peso)
                        0 (competencias_requeridas self)
            in (total / soma_pesos) * 100))"

definition adicionar_competencia :: "Perfil \<Rightarrow> string \<Rightarrow> int \<Rightarrow> Perfil" where
  "adicionar_competencia self competencia nivel =
     self\<lparr>Perfil.competencias := dict_set (Perfil.competencias self) competencia nivel\<rparr>"

subsection \<open>The names of the catalog\<close>

definition logica_de_programacao :: string where
  "logica_de_programacao = ''L'' @ [CHR 0xF3] @ ''gica de Programa'' @ [CHR 0xE7, CHR 0xE3] @ ''o''"

definition criatividade :: string where
  "criatividade = ''Criatividade''"

definition colaboracao :: string where
  "colaboracao = ''Colabora'' @ [CHR 0xE7, CHR 0xE3] @ ''o''"

definition adaptabilidade :: string where
  "adaptabilidade = ''Adaptabilidade''"

definition pensamento_analitico :: string where
  "pensamento_analitico = ''Pensamento Anal'' @ [CHR 0xED] @ ''tico''"

definition inteligencia_artificial :: string where
  "inteligencia_artificial = ''Intelig'' @ [CHR 0xEA] @ ''ncia Artificial''"

definition comunicacao :: string where
  "comunicacao = ''Comunica'' @ [CHR 0xE7, CHR 0xE3] @ ''o''"

definition resolucao_de_problemas :: string where
  "resolucao_de_problemas = ''Resolu'' @ [CHR 0xE7, CHR 0xE3] @ ''o de Problemas''"

definition curiosidade :: string where
  "curiosidade = ''Curiosidade''"

definition lideranca :: string where
  "lideranca = ''Lideran'' @ [CHR 0xE7] @ ''a''"

definition tecnica :: string where
  "tecnica = ''T'' @ [CHR 0xE9] @ ''cnica''"

definition comportamental :: string where
  "comportamental = ''Comportamental''"

subsection \<open>SistemaOrientacao and its built-in data\<close>

record SistemaOrientacao =
  competencias :: "(string \<times> Competencia) list"
  carreiras :: "Carreira list"
  perfis :: "Perfil list"
  trilhas_competencias :: "(string \<times> string list) list"

definition competencias_definidas :: "Competencia list" where
  "competencias_definidas =
     [\<lparr>Competencia.nome = logica_de_programacao, categoria = tecnica,
        descricao = ''Capacidade de entender algoritmos e estruturas l'' @ [CHR 0xF3] @ ''gicas''\<rparr>,
      \<lparr>Competencia.nome = criatividade, categoria = comportamental,
        descricao = ''Habilidade de propor solu'' @ [CHR 0xE7, CHR 0xF5] @ ''es inovadoras e originais''\<rparr>,
      \<lparr>Competencia.nome = colaboracao, categoria = comportamental,
        descricao = ''Trabalhar bem em equipe e compartilhar conhecimento''\<rparr>,
      \<lparr>Competencia.nome = adaptabilidade, categoria = comportamental,
        descricao = ''Capacidade de se ajustar rapidamente a mudan'' @ [CHR 0xE7] @ ''as''\<rparr>,
      \<lparr>Competencia.nome = pensamento_analitico, categoria = tecnica,
        descricao = ''Analisar dados e problemas de forma estruturada''\<rparr>,
      \<lparr>Competencia.nome = inteligencia_artificial, categoria = tecnica,
        descricao = ''Conhecimento em algoritmos e ferramentas de IA''\<rparr>,
      \<lparr>Competencia.nome = comunicacao, categoria = comportamental,
        descricao = ''Expressar ideias de forma clara e objetiva''\<rparr>,
      \<lparr>Competencia.nome = resolucao_de_problemas, categoria = comportamental,
        descricao = ''Diagnosticar e resolver problemas de forma eficaz''\<rparr>,
      \<lparr>Competencia.nome = curiosidade, categoria = comportamental,
        descricao = ''Desejo cont'' @ [CHR 0xED] @ ''nuo de aprender coisas novas''\<rparr>,
      \<lparr>Competencia.nome = lideranca, categoria = comportamental,
        descricao = ''Influenciar e motivar pessoas para atingir objetivos''\<rparr>]"

definition trilhas_padrao :: "(string \<times> string list) list" where
  "trilhas_padrao =
     [(logica_de_programacao,
        [''Curso introdut'' @ [CHR 0xF3] @ ''rio de l'' @ [CHR 0xF3] @ ''gica no Codecademy'',
         ''Resolver desafios em plataformas como HackerRank ou LeetCode'']),
      (criatividade,
        [''Praticar brainstormings e design thinking'',
         ''Participar de workshops de inova'' @ [CHR 0xE7, CHR 0xE3] @ ''o'']),
      (colaboracao,
        [''Trabalhar em projetos em equipe'',
         ''Estudar metodologias '' @ [CHR 0xE1] @ ''geis'']),
      (adaptabilidade,
        [''Participar de cursos sobre gest'' @ [CHR 0xE3] @ ''o de mudan'' @ [CHR 0xE7] @ ''as'',
         ''Exercitar flexibilidade em projetos multidisciplinares'']),
      (pensamento_analitico,
        [''Aprender estat'' @ [CHR 0xED] @ ''stica b'' @ [CHR 0xE1] @ ''sica e an'' @ [CHR 0xE1] @ ''lise de dados'',
         ''Praticar interpreta'' @ [CHR 0xE7, CHR 0xE3] @ ''o de dashboards e gr'' @ [CHR 0xE1] @ ''ficos'']),
      (inteligencia_artificial,
        [''Fazer um curso de introdu'' @ [CHR 0xE7, CHR 0xE3] @ ''o ao Machine Learning'',
         ''Explorar bibliotecas de IA como TensorFlow ou PyTorch'']),
      (comunicacao,
        [''Participar de debates e apresenta'' @ [CHR 0xE7, CHR 0xF5] @ ''es'',
         ''Estudar t'' @ [CHR 0xE9] @ ''cnicas de storytelling'']),
      (resolucao_de_problemas,
        [''Praticar l'' @ [CHR 0xF3] @ ''gica e quebra-cabe'' @ [CHR 0xE7] @ ''as'',
         ''Aplicar metodologias como Design Thinking'']),
      (curiosidade,
        [''Ler artigos de diferentes '' @ [CHR 0xE1] @ ''reas regularmente'',
         ''Explorar novos hobbies e ferramentas'']),
      (lideranca,
        [''Participar de cursos de gest'' @ [CHR 0xE3] @ ''o de equipes'',
         ''Ler biografias de l'' @ [CHR 0xED] @ ''deres inspiradores''])]"

definition cientista_de_dados :: Carreira where
  "cientista_de_dados =
     \<lparr>Carreira.nome = ''Cientista de Dados'',
      competencias_requeridas =
        [(logica_de_programacao, 25 / 100), (pensamento_analitico, 30 / 100),
         (curiosidade, 10 / 100), (colaboracao, 10 / 100), (resolucao_de_problemas, 25 / 100)],
      trilha =
        [''Curso de programa'' @ [CHR 0xE7, CHR 0xE3] @ ''o em Python'',
         ''Especializa'' @ [CHR 0xE7, CHR 0xE3] @ ''o em ci'' @ [CHR 0xEA] @ ''ncia de dados e estat'' @ [CHR 0xED] @ ''stica'',
         ''Projetos pr'' @ [CHR 0xE1] @ ''ticos de an'' @ [CHR 0xE1] @ ''lise de dados'']\<rparr>"

definition engenheiro_de_software :: Carreira where
  "engenheiro_de_software =
     \<lparr>Carreira.nome = ''Engenheiro de Software'',
      competencias_requeridas =
        [(logica_de_programacao, 30 / 100), (resolucao_de_problemas, 25 / 100),
         (colaboracao, 15 / 100), (adaptabilidade, 15 / 100), (comunicacao, 15 / 100)],
      trilha =
        [''Curso avan'' @ [CHR 0xE7] @ ''ado de programa'' @ [CHR 0xE7, CHR 0xE3] @ ''o orientada a objetos'',
         ''Pr'' @ [CHR 0xE1] @ ''tica de versionamento com Git e GitHub'',
         ''Contribui'' @ [CHR 0xE7, CHR 0xE3] @ ''o para projetos open source'']\<rparr>"

definition designer_de_ux :: Carreira where
  "designer_de_ux =
     \<lparr>Carreira.nome = ''Designer de UX'',
      competencias_requeridas =
        [(criatividade, 30 / 100), (comunicacao, 20 / 100), (curiosidade, 10 / 100),
         (colaboracao, 20 / 100), (adaptabilidade, 20 / 100)],
      trilha =
        [''Cursos de design de interface e experi'' @ [CHR 0xEA] @ ''ncia do usu'' @ [CHR 0xE1] @ ''rio'',
         ''Estudos de usabilidade e comportamento do usu'' @ [CHR 0xE1] @ ''rio'',
         ''Constru'' @ [CHR 0xE7, CHR 0xE3] @ ''o de portf'' @ [CHR 0xF3] @ ''lio com projetos de design'']\<rparr>"

definition especialista_em_ciberseguranca :: Carreira where
  "especialista_em_ciberseguranca =
     \<lparr>Carreira.nome = ''Especialista em Ciberseguran'' @ [CHR 0xE7] @ ''a'',
      competencias_requeridas =
        [(logica_de_programacao, 20 / 100), (pensamento_analitico, 30 / 100),
         (resolucao_de_problemas, 30 / 100), (adaptabilidade, 20 / 100)],
      trilha =
        [''Forma'' @ [CHR 0xE7, CHR 0xE3] @ ''o em seguran'' @ [CHR 0xE7] @ ''a da informa'' @ [CHR 0xE7, CHR 0xE3] @ ''o'',
         ''Certifica'' @ [CHR 0xE7, CHR 0xF5] @ ''es como CEH ou CompTIA Security+'',
         ''Pr'' @ [CHR 0xE1] @ ''tica em ambientes de captura a bandeira (CTF)'']\<rparr>"

definition engenheiro_de_machine_learning :: Carreira where
  "engenheiro_de_machine_learning =
     \<lparr>Carreira.nome = ''Engenheiro de Machine Learning'',
      competencias_requeridas =
        [(logica_de_programacao, 20 / 100), (inteligencia_artificial, 40 / 100),
         (pensamento_analitico, 25 / 100), (curiosidade, 15 / 100)],
      trilha =
        [''Curso intensivo de Machine Learning'',
         ''Projetos de IA aplicados a problemas reais'',
         ''Estudo de algoritmos avan'' @ [CHR 0xE7] @ ''ados de aprendizado'']\<rparr>"

definition empreendedor_tecnologico :: Carreira where
  "empreendedor_tecnologico =
     \<lparr>Carreira.nome = ''Empreendedor Tecnol'' @ [CHR 0xF3] @ ''gico'',
      competencias_requeridas =
        [(criatividade, 30 / 100), (lideranca, 30 / 100),
         (adaptabilidade, 20 / 100), (comunicacao, 20 / 100)],
      trilha =
        [''Cursos de empreendedorismo e inova'' @ [CHR 0xE7, CHR 0xE3] @ ''o'',
         ''Participa'' @ [CHR 0xE7, CHR 0xE3] @ ''o em hackathons e incubadoras'',
         ''Leitura sobre modelos de neg'' @ [CHR 0xF3] @ ''cio e startups'']\<rparr>"

text \<open>
  \<^verbatim>\<open>__init__\<close> followed by \<^verbatim>\<open>_carregar_dados_padrao\<close>: the skills are stored one
  by one under their names, the two other tables are assigned as literals.
\<close>

definition carregar_dados_padrao :: "SistemaOrientacao \<Rightarrow> SistemaOrientacao" where
  "carregar_dados_padrao self =
     self\<lparr>competencias :=
            foldl (\<lambda>d comp. dict_set d (Competencia.nome comp) comp)
                  (competencias self) competencias_definidas,
          trilhas_competencias := trilhas_padrao,
          carreiras :=
            [cientista_de_dados, engenheiro_de_software, designer_de_ux,
             especialista_em_ciberseguranca, engenheiro_de_machine_learning,
             empreendedor_tecnologico]\<rparr>"

definition sistema_inicial :: SistemaOrientacao where
  "sistema_inicial =
     carregar_dados_padrao
       \<lparr>competencias = [], carreiras = [], perfis = [], trilhas_competencias = []\<rparr>"

subsection \<open>The recommendation engine\<close>

definition formatar_recomendacao :: "rat \<times> Carreira \<Rightarrow> string" where
  "formatar_recomendacao item =
     (case item of (pontuacao, carreira) \<Rightarrow>
        Carreira.nome carreira @ '' - Compatibilidade: '' @ fmt_1f pontuacao @ ''%'')"

definition recomendar_carreiras :: "SistemaOrientacao \<Rightarrow> Perfil \<Rightarrow> int \<Rightarrow> string list" where
  "recomendar_carreiras self perfil limite =
     (let resultados =
            map (\<lambda>carreira. (calcular_pontuacao carreira (Perfil.competencias perfil), carreira))
                (carreiras self);
          ordenados = py_sort_reverse fst resultados
      in map formatar_recomendacao (py_slice_ate ordenados limite))"

text \<open>The default value of the parameter \<^verbatim>\<open>limite\<close>.\<close>

definition limite_padrao :: int where
  "limite_padrao = 3"

definition formatar_trilha :: "string \<Rightarrow> string list \<Rightarrow> string" where
  "formatar_trilha comp_nome trilhas =
     ''Para melhorar em '' @ [CHR 0x27] @ comp_nome @ [CHR 0x27] @ '', considere: ''
       @ py_join '', '' trilhas"

definition recomendar_trilhas_aprimoramento :: "SistemaOrientacao \<Rightarrow> Perfil \<Rightarrow> string list" where
  "recomendar_trilhas_aprimoramento self perfil =
     foldl (\<lambda>recomendacoes (comp_nome, nivel).
              if nivel < 3 then
                (let trilhas = dict_get (trilhas_competencias self) comp_nome []
                 in if trilhas \<noteq> [] then recomendacoes @ [formatar_trilha comp_nome trilhas]
                    else recomendacoes)
              else recomendacoes)
           [] (Perfil.competencias perfil)"

subsection \<open>The console flows\<close>

definition texto_pedir_nivel :: "string \<Rightarrow> string" where
  "texto_pedir_nivel comp_nome =
     ''Informe seu n'' @ [CHR 0xED] @ ''vel em '' @ [CHR 0x27] @ comp_nome @ [CHR 0x27] @ '' (1-5): ''"

definition texto_entrada_invalida :: string where
  "texto_entrada_invalida =
     ''Entrada inv'' @ [CHR 0xE1] @ ''lida. Por favor, insira um n'' @ [CHR 0xFA] @ ''mero entre 1 e 5.''"

definition texto_perfil_invalido :: string where
  "texto_perfil_invalido = ''Perfil inv'' @ [CHR 0xE1] @ ''lido.'' @ [CHR 0x0A]"

definition texto_menu :: string where
  "texto_menu =
     [CHR 0x0A] @ ''========= Future Skills Lab ========='' @ [CHR 0x0A]
     @ ''1. Cadastrar novo perfil'' @ [CHR 0x0A]
     @ ''2. Listar perfis cadastrados'' @ [CHR 0x0A]
     @ ''3. Gerar recomenda'' @ [CHR 0xE7, CHR 0xF5] @ ''es de carreira'' @ [CHR 0x0A]
     @ ''4. Gerar trilhas de aprimoramento'' @ [CHR 0x0A]
     @ ''5. Sair'' @ [CHR 0x0A]"

definition texto_escolha :: string where
  "texto_escolha = ''Escolha uma op'' @ [CHR 0xE7, CHR 0xE3] @ ''o: ''"

text \<open>
  The \<^verbatim>\<open>while True\<close> of \<^verbatim>\<open>cadastrar_perfil\<close> for one skill. Every round reads one
  line; a line that is not an integer from 1 to 5 is answered by the error text and
  the next round.
\<close>

fun pedir_nivel ::
  "string \<Rightarrow> Perfil \<Rightarrow> string list \<Rightarrow> string list \<Rightarrow> erro + (Perfil \<times> string list \<times> string list)"
where
  "pedir_nivel comp_nome perfil [] saida = Inl EOFError"
| "pedir_nivel comp_nome perfil (linha # entrada) saida =
     (let saida1 = saida @ [texto_pedir_nivel comp_nome];
          valor_str = py_strip linha
      in case py_int valor_str of
           None \<Rightarrow> pedir_nivel comp_nome perfil entrada (saida1 @ [texto_entrada_invalida])
         | Some valor \<Rightarrow>
             if 1 \<le> valor \<and> valor \<le> 5
             then Inr (adicionar_competencia perfil comp_nome valor, entrada, saida1)
             else pedir_nivel comp_nome perfil entrada (saida1 @ [texto_entrada_invalida]))"

text \<open>The \<^verbatim>\<open>for comp_nome in self.competencias.keys()\<close> around it.\<close>

fun pedir_niveis ::
  "string list \<Rightarrow> Perfil \<Rightarrow> string list \<Rightarrow> string list \<Rightarrow> erro + (Perfil \<times> string list \<times> string list)"
where
  "pedir_niveis [] perfil entrada saida = Inr (perfil, entrada, saida)"
| "pedir_niveis (comp_nome # resto) perfil entrada saida =
     (case pedir_nivel comp_nome perfil entrada saida of
        Inl e \<Rightarrow> Inl e
      | Inr (perfil1, entrada1, saida1) \<Rightarrow> pedir_niveis resto perfil1 entrada1 saida1)"

definition texto_cadastro :: "string \<Rightarrow> string" where
  "texto_cadastro nome_usuario =
     [CHR 0x0A] @ ''Cadastro de compet'' @ [CHR 0xEA] @ ''ncias para '' @ nome_usuario @ '':''"

definition texto_cadastrado :: "string \<Rightarrow> string" where
  "texto_cadastrado nome_usuario =
     [CHR 0x0A] @ ''Perfil '' @ [CHR 0x27] @ nome_usuario @ [CHR 0x27] @ '' cadastrado com sucesso!''
       @ [CHR 0x0A]"

definition cadastrar_perfil ::
  "SistemaOrientacao \<Rightarrow> string \<Rightarrow> string list \<Rightarrow> string list
     \<Rightarrow> erro + (Perfil \<times> SistemaOrientacao \<times> string list \<times> string list)"
where
  "cadastrar_perfil self nome_usuario entrada saida =
     (let perfil = \<lparr>Perfil.nome = nome_usuario, competencias = []\<rparr>;
          saida1 = saida @ [texto_cadastro nome_usuario]
      in case pedir_niveis (map fst (competencias self)) perfil entrada saida1 of
           Inl e \<Rightarrow> Inl e
         | Inr (perfil1, entrada1, saida2) \<Rightarrow>
             Inr (perfil1,
                  self\<lparr>perfis := perfis self @ [perfil1]\<rparr>,
                  entrada1,
                  saida2 @ [texto_cadastrado nome_usuario]))"

definition listar_perfis :: "SistemaOrientacao \<Rightarrow> string list \<Rightarrow> string list" where
  "listar_perfis self saida =
     (if perfis self = []
      then saida @ [''Nenhum perfil cadastrado at'' @ [CHR 0xE9] @ '' o momento.'' @ [CHR 0x0A]]
      else saida @ [[CHR 0x0A] @ ''Perfis cadastrados:'']
             @ map (\<lambda>(idx, perfil). str_nat idx @ ''. '' @ Perfil.nome perfil)
                   (List.enumerate 1 (perfis self))
             @ [[]])"

text \<open>
  The selection of a profile in the choices 3 and 4:
  \<^verbatim>\<open>idx = int(input(...).strip()); perfil = self.perfis[idx - 1]\<close> inside
  \<^verbatim>\<open>try ... except (ValueError, IndexError)\<close>. \<open>None\<close> is the \<^verbatim>\<open>except\<close> branch.
\<close>

definition escolher_perfil :: "SistemaOrientacao \<Rightarrow> string \<Rightarrow> Perfil option" where
  "escolher_perfil self linha =
     (case py_int (py_strip linha) of
        None \<Rightarrow> None
      | Some idx \<Rightarrow> py_index (perfis self) (idx - 1))"

text \<open>
  One round of the \<^verbatim>\<open>while True\<close> of \<^verbatim>\<open>menu_principal\<close>, entered after the menu
  text has been printed and the choice has been read and stripped. The Boolean tells
  whether the loop goes on (\<open>False\<close> is the \<^verbatim>\<open>break\<close> of choice 5).
\<close>

definition menu_escolha ::
  "SistemaOrientacao \<Rightarrow> string \<Rightarrow> string list \<Rightarrow> string list
     \<Rightarrow> erro + (bool \<times> SistemaOrientacao \<times> string list \<times> string list)"
where
  "menu_escolha self escolha entrada saida =
     (if escolha = ''1'' then
        (case entrada of
           [] \<Rightarrow> Inl EOFError
         | linha # entrada1 \<Rightarrow>
             (let nome_usuario = py_strip linha;
                  saida1 = saida @ [''Digite seu nome: '']
              in if nome_usuario \<noteq> [] then
                   (case cadastrar_perfil self nome_usuario entrada1 saida1 of
                      Inl e \<Rightarrow> Inl e
                    | Inr (perfil, self1, entrada2, saida2) \<Rightarrow> Inr (True, self1, entrada2, saida2))
                 else Inr (True, self, entrada1, saida1)))
      else if escolha = ''2'' then Inr (True, self, entrada, listar_perfis self saida)
      else if escolha = ''3'' then
        (if perfis self = [] then
           Inr (True, self, entrada,
                saida @ [''Cadastre um perfil antes de gerar recomenda'' @ [CHR 0xE7, CHR 0xF5]
                           @ ''es.'' @ [CHR 0x0A]])
         else
           (case entrada of
              [] \<Rightarrow> Inl EOFError
            | linha # entrada1 \<Rightarrow>
                (let saida1 = listar_perfis self saida
                       @ [''Informe o n'' @ [CHR 0xFA] @ ''mero do perfil para ver as recomenda''
                            @ [CHR 0xE7, CHR 0xF5] @ ''es: '']
                 in case escolher_perfil self linha of
                      None \<Rightarrow> Inr (True, self, entrada1, saida1 @ [texto_perfil_invalido])
                    | Some perfil \<Rightarrow>
                        (let mensagens = recomendar_carreiras self perfil limite_padrao
                         in Inr (True, self, entrada1,
                                 saida1
                                 @ [[CHR 0x0A] @ ''Recomenda'' @ [CHR 0xE7, CHR 0xF5]
                                      @ ''es de carreira para '' @ Perfil.nome perfil @ '':'']
                                 @ map (\<lambda>msg. ''- '' @ msg) mensagens
                                 @ [[]])))))
      else if escolha = ''4'' then
        (if perfis self = [] then
           Inr (True, self, entrada,
                saida @ [''Cadastre um perfil antes de gerar trilhas de aprimoramento.'' @ [CHR 0x0A]])
         else
           (case entrada of
              [] \<Rightarrow> Inl EOFError
            | linha # entrada1 \<Rightarrow>
                (let saida1 = listar_perfis self saida
                       @ [''Informe o n'' @ [CHR 0xFA]
                            @ ''mero do perfil para ver as trilhas de aprimoramento: '']
                 in case escolher_perfil self linha of
                      None \<Rightarrow> Inr (True, self, entrada1, saida1 @ [texto_perfil_invalido])
                    | Some perfil \<Rightarrow>
                        (let recomendacoes = recomendar_trilhas_aprimoramento self perfil
                         in if recomendacoes = [] then
                              Inr (True, self, entrada1,
                                   saida1
                                   @ [Perfil.nome perfil @ '' n'' @ [CHR 0xE3] @ ''o possui compet''
                                        @ [CHR 0xEA] @ ''ncias com nota baixa. Parab'' @ [CHR 0xE9]
                                        @ ''ns!'' @ [CHR 0x0A]])
                            else
                              Inr (True, self, entrada1,
                                   saida1
                                   @ [[CHR 0x0A] @ ''Trilhas de aprimoramento para ''
                                        @ Perfil.nome perfil @ '':'']
                                   @ map (\<lambda>rec. ''- '' @ rec) recomendacoes
                                   @ [[]])))))
      else if escolha = ''5'' then
        Inr (False, self, entrada,
             saida @ [''Saindo... obrigado por utilizar o Future Skills Lab!''])
      else
        Inr (True, self, entrada,
             saida @ [''Op'' @ [CHR 0xE7, CHR 0xE3] @ ''o inv'' @ [CHR 0xE1]
                        @ ''lida. Tente novamente.'' @ [CHR 0x0A]]))"

text \<open>
  The loop of \<^verbatim>\<open>menu_principal\<close>. Every round reads at least the line of the choice,
  so the loop ends on every finite input: with the \<^verbatim>\<open>break\<close> of choice 5, or with
  \<^verbatim>\<open>EOFError\<close> when the lines run out.
\<close>

function menu_principal ::
  "SistemaOrientacao \<Rightarrow> string list \<Rightarrow> string list
     \<Rightarrow> erro + (SistemaOrientacao \<times> string list \<times> string list)"
where
  "menu_principal self [] saida = Inl EOFError"
| "menu_principal self (linha # entrada) saida =
     (case menu_escolha self (py_strip linha) entrada (saida @ [texto_menu, texto_escolha]) of
        Inl e \<Rightarrow> Inl e
      | Inr (continua, self1, entrada1, saida1) \<Rightarrow>
          if continua then menu_principal self1 entrada1 saida1
          else Inr (self1, entrada1, saida1))"
  by pat_completeness auto
termination
proof (relation "measure (\<lambda>(self, entrada, saida). length entrada)")
  show "wf (measure (\<lambda>(self :: SistemaOrientacao, entrada :: string list, saida :: string list).
                      length entrada))"
    by simp
next
  fix self :: SistemaOrientacao and linha :: string and entrada saida :: "string list"
    and x2 continua y self1 ya entrada1 saida1
  assume passo:
    "menu_escolha self (py_strip linha) entrada (saida @ [texto_menu, texto_escolha]) = Inr x2"
    "(continua, y) = x2" "(self1, ya) = y" "(entrada1, saida1) = ya"
  have nivel: "length e1 < length e"
    if "pedir_nivel c p e s = Inr (p1, e1, s1)" for c p e s p1 e1 s1
    using that
  proof (induction c p e s rule: pedir_nivel.induct)
    case (1 comp_nome perfil saida)
    then show ?case by simp
  next
    case (2 comp_nome perfil linha entrada saida)
    then show ?case
      by (fastforce simp: Let_def split: option.splits if_splits)
  qed
  have niveis: "length e1 \<le> length e"
    if "pedir_niveis cs p e s = Inr (p1, e1, s1)" for cs p e s p1 e1 s1
    using that
  proof (induction cs arbitrary: p e s)
    case Nil
    then show ?case by simp
  next
    case (Cons c cs)
    then show ?case
      by (fastforce split: sum.splits dest: nivel)
  qed
  have cadastro: "length e1 \<le> length e"
    if "cadastrar_perfil sis n e s = Inr (p1, sis1, e1, s1)" for sis n e s p1 sis1 e1 s1
    using that
    by (auto simp: cadastrar_perfil_def Let_def split: sum.splits dest: niveis)
  have "length entrada1 \<le> length entrada"
    using passo unfolding menu_escolha_def
    by (auto simp: Let_def split: if_splits list.splits sum.splits option.splits
             dest: cadastro)
  then show "((self1, entrada1, saida1), self, linha # entrada, saida)
               \<in> measure (\<lambda>(self, entrada, saida). length entrada)"
    by simp
qed

subsection \<open>Definitions used to state the properties\<close>



text \<open>The weighted total accumulated by the loop of \<^verbatim>\<open>calcular_pontuacao\<close>.\<close>

definition total_ponderado :: "(string \<times> rat) list \<Rightarrow> (string \<times> int) list \<Rightarrow> rat" where
  "total_ponderado reqs p =
     sum_list (map (\<lambda>(k, w). (of_int (dict_get p k 0) / 5) * w) reqs)"

text \<open>
  The profile of the scenario of the specification: level 5 for the five skills of the
  data scientist, level 1 for the five others, stored in the order of the catalog.
\<close>

definition perfil_ana :: Perfil where
  "perfil_ana =
     \<lparr>Perfil.nome = ''Ana'',
      competencias =
        [(logica_de_programacao, 5), (criatividade, 1), (colaboracao, 5), (adaptabilidade, 1),
         (pensamento_analitico, 5), (inteligencia_artificial, 1), (comunicacao, 1),
         (resolucao_de_problemas, 5), (curiosidade, 5), (lideranca, 1)]\<rparr>"

text \<open>
  A profile with two weak skills of the catalog, one weak skill that has no learning
  track, and one strong skill.
\<close>

definition perfil_bruno :: Perfil where
  "perfil_bruno =
     \<lparr>Perfil.nome = ''Bruno'',
      competencias = [(lideranca, 2), (''Xadrez'', 1), (criatividade, 4), (colaboracao, 1)]\<rparr>"

text \<open>
  The levels of the scenario of the specification, read through the lookups of a
  profile: 5 for the five skills of the data scientist, 1 for the five other skills of
  the catalog.
\<close>

definition niveis_ana :: "(string \<times> int) list \<Rightarrow> bool" where
  "niveis_ana p =
     (map_of p logica_de_programacao = Some 5 \<and> map_of p pensamento_analitico = Some 5
      \<and> map_of p curiosidade = Some 5 \<and> map_of p colaboracao = Some 5
      \<and> map_of p resolucao_de_problemas = Some 5
      \<and> map_of p criatividade = Some 1 \<and> map_of p adaptabilidade = Some 1
      \<and> map_of p inteligencia_artificial = Some 1 \<and> map_of p comunicacao = Some 1
      \<and> map_of p lideranca = Some 1)"

text \<open>
  The shape of a number printed with one decimal digit: an optional minus sign, at
  least one digit, the point, one digit.
\<close>

definition eh_digito :: "char \<Rightarrow> bool" where
  "eh_digito c = (digito c \<noteq> None)"

definition uma_casa_decimal :: "string \<Rightarrow> bool" where
  "uma_casa_decimal s =
     (let t = (case s of [] \<Rightarrow> s | c # r \<Rightarrow> if c = CHR ''-'' then r else s)
      in case rev t of
           d # p # ds \<Rightarrow> eh_digito d \<and> p = CHR ''.'' \<and> ds \<noteq> [] \<and> list_all eh_digito ds
         | _ \<Rightarrow> False)"

text \<open>The text of a recommendation as the specification words it.\<close>

definition formato_spec :: "string \<Rightarrow> rat \<Rightarrow> string" where
  "formato_spec nome_carreira pontuacao =
     nome_carreira @ '' - Compatibility: '' @ fmt_1f pontuacao @ ''%''"







text \<open>
  The lines of a whole session: register Ana, then ask for the career recommendations
  and for the learning tracks of profile number 0, then leave.
\<close>

definition entrada_zero :: "string list" where
  "entrada_zero =
     [''1'', ''Ana'', ''5'', ''1'', ''5'', ''1'', ''5'', ''1'', ''1'', ''5'', ''5'', ''1'',
      ''3'', ''0'', ''4'', ''0'', ''5'']"

section \<open>Properties\<close>

subsection \<open>Sums computed by the loops\<close>

lemma foldl_soma:
  "foldl (\<lambda>acc x. acc + f x) a xs = a + sum_list (map f xs)" for a :: rat
  by (induction xs arbitrary: a) (simp_all add: add.assoc)

lemma py_sum_sum_list: "py_sum xs = sum_list xs"
  using foldl_soma [of "\<lambda>x. x" 0 xs] by (simp add: py_sum_def)

lemma total_sum_list:
  "foldl (\<lambda>total (comp, peso). total + (of_int (dict_get p comp 0) / 5) * peso) 0 reqs
     = sum_list (map (\<lambda>(comp, peso). (of_int (dict_get p comp 0) / 5) * peso) reqs)"
  for reqs :: "(string \<times> rat) list"
  using foldl_soma [of "\<lambda>(comp, peso). (of_int (dict_get p comp 0) / 5) * peso" 0 reqs]
  by (simp add: case_prod_unfold)

lemma calcular_pontuacao_soma:
  "calcular_pontuacao c p =
     (if sum_list (map snd (competencias_requeridas c)) = 0 then 0
      else total_ponderado (competencias_requeridas c) p
             / sum_list (map snd (competencias_requeridas c)) * 100)"
  unfolding calcular_pontuacao_def Let_def py_sum_sum_list total_sum_list total_ponderado_def
  by simp

lemma soma_pesos_nao_negativa:
  "\<forall>(k, w) \<in> set reqs. 0 \<le> w \<Longrightarrow> 0 \<le> sum_list (map snd reqs)"
  for reqs :: "(string \<times> rat) list"
  by (intro sum_list_nonneg) auto


lemma total_ponderado_limites:
  assumes pesos: "\<forall>(k, w) \<in> set reqs. 0 \<le> w"
    and niveis: "\<And>k. 0 \<le> dict_get p k 0 \<and> dict_get p k 0 \<le> 5"
  shows "0 \<le> total_ponderado reqs p \<and> total_ponderado reqs p \<le> sum_list (map snd reqs)"
proof -
  let ?f = "\<lambda>(k, w). (of_int (dict_get p k 0) / 5) * (w :: rat)"
  have each: "0 \<le> ?f x \<and> ?f x \<le> snd x" if x: "x \<in> set reqs" for x
  proof -
    obtain k w where kw: "x = (k, w)" by (cases x)
    with x pesos have w: "0 \<le> w" by auto
    have a: "(0 :: rat) \<le> of_int (dict_get p k 0) / 5" using niveis [of k] by simp
    have "(of_int (dict_get p k 0) :: rat) \<le> of_int 5"
      using niveis [of k] by (simp only: of_int_le_iff)
    then have b: "(of_int (dict_get p k 0) / 5 :: rat) \<le> 1" by simp
    have c: "0 \<le> (of_int (dict_get p k 0) / 5) * w"
      using a w by (rule mult_nonneg_nonneg)
    have "(of_int (dict_get p k 0) / 5) * w \<le> 1 * w"
      using b w by (rule mult_right_mono)
    then have d: "(of_int (dict_get p k 0) / 5) * w \<le> w" by simp
    show ?thesis unfolding kw using c d by simp
  qed
  have "0 \<le> sum_list (map ?f reqs)"
    using each by (intro sum_list_nonneg) auto
  moreover have "sum_list (map ?f reqs) \<le> sum_list (map snd reqs)"
    using each by (intro sum_list_mono) auto
  ultimately show ?thesis by (simp add: total_ponderado_def)
qed



lemma pontuacao_intervalo:
  assumes pesos: "\<forall>(k, w) \<in> set (competencias_requeridas c). 0 \<le> w"
    and niveis: "\<And>k. 0 \<le> dict_get p k 0 \<and> dict_get p k 0 \<le> 5"
  shows "0 \<le> calcular_pontuacao c p \<and> calcular_pontuacao c p \<le> 100"
proof (cases "sum_list (map snd (competencias_requeridas c)) = 0")
  case True
  then show ?thesis by (simp add: calcular_pontuacao_soma)
next
  case False
  let ?S = "sum_list (map snd (competencias_requeridas c))"
  let ?T = "total_ponderado (competencias_requeridas c) p"
  have S: "0 < ?S"
    using False soma_pesos_nao_negativa [OF pesos] by simp
  have T: "0 \<le> ?T" "?T \<le> ?S"
    using total_ponderado_limites [OF pesos niveis] by simp_all
  have q: "0 \<le> ?T / ?S" "?T / ?S \<le> 1"
    using S T by simp_all
  have "0 \<le> ?T / ?S * 100"
    using q(1) by (rule mult_nonneg_nonneg) simp
  moreover have "?T / ?S * 100 \<le> 1 * 100"
    using q(2) by (rule mult_right_mono) simp
  ultimately show ?thesis
    by (simp only: calcular_pontuacao_soma False if_False) simp
qed

lemma dict_get_niveis:
  assumes "\<forall>(k, v) \<in> set p. 1 \<le> v \<and> v \<le> 5"
  shows "0 \<le> dict_get p k 0 \<and> dict_get p k 0 \<le> (5 :: int)"
proof (cases "map_of p k")
  case None
  then show ?thesis by (simp add: dict_get_def)
next
  case (Some v)
  then have "(k, v) \<in> set p" by (rule map_of_SomeD)
  with assms have "1 \<le> v \<and> v \<le> 5" by auto
  with Some show ?thesis by (simp add: dict_get_def)
qed

lemma carreiras_sistema_inicial:
  "carreiras sistema_inicial =
     [cientista_de_dados, engenheiro_de_software, designer_de_ux,
      especialista_em_ciberseguranca, engenheiro_de_machine_learning,
      empreendedor_tecnologico]"
  by (simp add: sistema_inicial_def carregar_dados_padrao_def)

lemma pesos_padrao:
  "c \<in> set (carreiras sistema_inicial) \<Longrightarrow> \<forall>(k, w) \<in> set (competencias_requeridas c). 0 \<le> w"
  unfolding carreiras_sistema_inicial
  by (auto simp: cientista_de_dados_def engenheiro_de_software_def designer_de_ux_def
       especialista_em_ciberseguranca_def engenheiro_de_machine_learning_def
       empreendedor_tecnologico_def)

lemmas nomes_defs =
  logica_de_programacao_def criatividade_def colaboracao_def adaptabilidade_def
  pensamento_analitico_def inteligencia_artificial_def comunicacao_def
  resolucao_de_problemas_def curiosidade_def lideranca_def

subsection \<open>The scoring formula\<close>


subsection \<open>Range, maximum and monotonicity of the score\<close>

text \<open>
  C6. For every profile whose recorded levels are all integers from 1 to 5 and every
  career of the built-in catalog, \<^verbatim>\<open>calcular_pontuacao\<close> returns a value between 0
  and 100.
\<close>

theorem pontuacao_entre_0_e_100:
  assumes "c \<in> set (carreiras sistema_inicial)"
    and "\<forall>(k, nivel) \<in> set (Perfil.competencias p). 1 \<le> nivel \<and> nivel \<le> 5"
  shows "0 \<le> calcular_pontuacao c (Perfil.competencias p)
         \<and> calcular_pontuacao c (Perfil.competencias p) \<le> 100"
  using assms by (intro pontuacao_intervalo pesos_padrao dict_get_niveis)

theorem pontuacao_entre_0_e_100_witness:
  "cientista_de_dados \<in> set (carreiras sistema_inicial)
   \<and> list_all (\<lambda>(k, nivel). 1 \<le> nivel \<and> nivel \<le> 5) (Perfil.competencias perfil_ana)
   \<and> 0 \<le> calcular_pontuacao cientista_de_dados (Perfil.competencias perfil_ana)
   \<and> calcular_pontuacao cientista_de_dados (Perfil.competencias perfil_ana) \<le> 100"
proof -
  have h1: "cientista_de_dados \<in> set (carreiras sistema_inicial)"
    by (simp add: carreiras_sistema_inicial)
  have h2: "\<forall>(k, nivel) \<in> set (Perfil.competencias perfil_ana). 1 \<le> nivel \<and> nivel \<le> 5"
    by (simp add: perfil_ana_def)
  from pontuacao_entre_0_e_100 [OF h1 h2] h1 h2 show ?thesis
    unfolding list_all_iff by blast
qed





subsection \<open>The ranking of the careers\<close>








subsection \<open>Learning tracks for the weak skills\<close>

lemma recomendar_trilhas_foldl:
  "foldl (\<lambda>recomendacoes (comp_nome, nivel).
              if nivel < 3 then
                (let trilhas = dict_get idx comp_nome []
                 in if trilhas \<noteq> [] then recomendacoes @ [formatar_trilha comp_nome trilhas]
                    else recomendacoes)
              else recomendacoes) acc items
   = acc @ map (\<lambda>(k, n). formatar_trilha k (dict_get idx k []))
             (filter (\<lambda>(k, n). n < 3 \<and> dict_get idx k [] \<noteq> []) items)"
  for items :: "(string \<times> int) list"
proof (induction items arbitrary: acc)
  case Nil
  then show ?case by simp
next
  case (Cons item items)
  obtain k n where item: "item = (k, n)" by (cases item)
  show ?case
  proof (cases "n < 3 \<and> dict_get idx k [] \<noteq> []")
    case True
    then show ?thesis
      unfolding item by (simp add: Cons.IH Let_def)
  next
    case False
    then show ?thesis
      unfolding item by (auto simp: Cons.IH Let_def)
  qed
qed

lemma recomendar_trilhas_geral:
  "recomendar_trilhas_aprimoramento self perfil
     = map (\<lambda>(k, n). formatar_trilha k (dict_get (trilhas_competencias self) k []))
           (filter (\<lambda>(k, n). n < 3 \<and> dict_get (trilhas_competencias self) k [] \<noteq> [])
                   (Perfil.competencias perfil))"
  unfolding recomendar_trilhas_aprimoramento_def recomendar_trilhas_foldl by simp

lemma dict_get_entrada:
  assumes "\<forall>(k, ts) \<in> set idx. ts \<noteq> []"
  shows "(dict_get idx k [] \<noteq> []) = (k \<in> fst ` set idx)"
proof (cases "map_of idx k")
  case None
  then have "k \<notin> fst ` set idx" by (simp add: map_of_eq_None_iff)
  with None show ?thesis by (simp add: dict_get_def)
next
  case (Some ts)
  then have "(k, ts) \<in> set idx" by (rule map_of_SomeD)
  with assms Some show ?thesis by (force simp: dict_get_def)
qed

lemma trilhas_sistema_inicial: "trilhas_competencias sistema_inicial = trilhas_padrao"
  by (simp add: sistema_inicial_def carregar_dados_padrao_def)

lemma trilhas_padrao_nao_vazias: "\<forall>(k, ts) \<in> set trilhas_padrao. ts \<noteq> []"
  by (simp add: trilhas_padrao_def)

text \<open>
  C3. For every profile, \<^verbatim>\<open>recomendar_trilhas_aprimoramento\<close> returns exactly one
  suggestion per entry of the profile whose level is below 3 and whose skill has an
  entry in the index of learning tracks, in the order of the entries of the profile.
  An entry whose skill is missing from the index yields nothing, and so does a skill
  the profile does not hold. The index is one whose resource lists are not empty, as
  the built-in index is; the method never changes it.
\<close>

theorem recomendar_trilhas_aprimoramento_ok:
  assumes "\<forall>(k, ts) \<in> set (trilhas_competencias self). ts \<noteq> []"
  shows "recomendar_trilhas_aprimoramento self perfil
     = map (\<lambda>(k, n). formatar_trilha k (dict_get (trilhas_competencias self) k []))
           (filter (\<lambda>(k, n). n < 3 \<and> k \<in> fst ` set (trilhas_competencias self))
                   (Perfil.competencias perfil))"
  unfolding recomendar_trilhas_geral
  by (simp add: dict_get_entrada [OF assms])

theorem recomendar_trilhas_aprimoramento_ok_witness:
  "list_all (\<lambda>(k, ts). ts \<noteq> []) (trilhas_competencias sistema_inicial)
   \<and> recomendar_trilhas_aprimoramento sistema_inicial perfil_bruno
       = [formatar_trilha lideranca
            [''Participar de cursos de gest'' @ [CHR 0xE3] @ ''o de equipes'',
             ''Ler biografias de l'' @ [CHR 0xED] @ ''deres inspiradores''],
          formatar_trilha colaboracao
            [''Trabalhar em projetos em equipe'',
             ''Estudar metodologias '' @ [CHR 0xE1] @ ''geis'']]"
proof -
  have h: "\<forall>(k, ts) \<in> set (trilhas_competencias sistema_inicial). ts \<noteq> []"
    unfolding trilhas_sistema_inicial by (rule trilhas_padrao_nao_vazias)
  have "recomendar_trilhas_aprimoramento sistema_inicial perfil_bruno
       = [formatar_trilha lideranca
            [''Participar de cursos de gest'' @ [CHR 0xE3] @ ''o de equipes'',
             ''Ler biografias de l'' @ [CHR 0xED] @ ''deres inspiradores''],
          formatar_trilha colaboracao
            [''Trabalhar em projetos em equipe'',
             ''Estudar metodologias '' @ [CHR 0xE1] @ ''geis'']]"
    unfolding recomendar_trilhas_aprimoramento_ok [OF h] trilhas_sistema_inicial
    by (simp add: perfil_bruno_def trilhas_padrao_def dict_get_def nomes_defs)
  with h show ?thesis
    unfolding list_all_iff by blast
qed

subsection \<open>The texts of the recommendations\<close>

lemma fmt_1f_100: "fmt_1f 100 = ''100.0''"
  by code_simp

lemma pontuacoes_ana:
  assumes "niveis_ana p"
  shows "calcular_pontuacao cientista_de_dados p = 100"
    and "calcular_pontuacao engenheiro_de_software p = 76"
    and "calcular_pontuacao designer_de_ux p = 44"
    and "calcular_pontuacao especialista_em_ciberseguranca p = 84"
    and "calcular_pontuacao engenheiro_de_machine_learning p = 68"
    and "calcular_pontuacao empreendedor_tecnologico p = 20"
  using assms
  by (simp_all add: niveis_ana_def calcular_pontuacao_soma total_ponderado_def dict_get_def
        cientista_de_dados_def engenheiro_de_software_def designer_de_ux_def
        especialista_em_ciberseguranca_def engenheiro_de_machine_learning_def
        empreendedor_tecnologico_def)

lemma recomendar_ana_primeira:
  assumes "niveis_ana (Perfil.competencias perfil)"
  shows "recomendar_carreiras sistema_inicial perfil 1
           = [''Cientista de Dados - Compatibilidade: 100.0%'']"
proof -
  have "recomendar_carreiras sistema_inicial perfil 1
          = [formatar_recomendacao (100, cientista_de_dados)]"
    by (simp add: recomendar_carreiras_def carreiras_sistema_inicial pontuacoes_ana [OF assms]
          py_sort_reverse_def py_slice_ate_def)
  then show ?thesis
    by (simp add: formatar_recomendacao_def fmt_1f_100 cientista_de_dados_def)
qed

lemma niveis_ana_perfil_ana: "niveis_ana (Perfil.competencias perfil_ana)"
  by (simp add: niveis_ana_def perfil_ana_def nomes_defs)

lemma eh_digito_char_of: "n < 10 \<Longrightarrow> eh_digito (char_of (48 + n))" for n :: nat
  by (simp add: eh_digito_def digito_def Let_def)

lemma str_nat_digitos: "str_nat n \<noteq> [] \<and> list_all eh_digito (str_nat n)"
proof (induction n rule: str_nat.induct)
  case (1 n)
  show ?case
  proof (cases "n < 10")
    case True
    then show ?thesis
      by (subst (1 2) str_nat.simps) (simp add: eh_digito_char_of)
  next
    case False
    have "n mod 10 < 10" by simp
    then have "eh_digito (char_of (48 + n mod 10))" by (rule eh_digito_char_of)
    with False 1 show ?thesis
      by (subst (1 2) str_nat.simps) simp
  qed
qed

lemma str_nat_um_digito: "n < 10 \<Longrightarrow> str_nat n = [char_of (48 + n)]"
  by (subst str_nat.simps) simp

lemma nao_menos: "eh_digito c \<Longrightarrow> c \<noteq> CHR ''-''"
  by (auto simp: eh_digito_def digito_def Let_def)

lemma fmt_1f_uma_casa: "uma_casa_decimal (fmt_1f x)"
proof -
  define t where "t = arredonda_par (\<bar>x\<bar> * 10)"
  define ds where "ds = str_nat (t div 10)"
  define d where "d = char_of (48 + t mod 10)"
  have ds: "ds \<noteq> []" "list_all eh_digito ds"
    using str_nat_digitos [of "t div 10"] by (simp_all add: ds_def)
  have d: "eh_digito d"
    unfolding d_def by (rule eh_digito_char_of) simp
  have u: "str_nat (t mod 10) = [d]"
    unfolding d_def by (rule str_nat_um_digito) simp
  have f: "fmt_1f x = (if x < 0 then ''-'' else []) @ ds @ ''.'' @ [d]"
    by (simp add: fmt_1f_def Let_def t_def [symmetric] ds_def [symmetric] u)
  obtain c r where cr: "ds = c # r" using ds(1) by (cases ds) auto
  with ds(2) have "c \<noteq> CHR ''-''" by (auto dest: nao_menos)
  then show ?thesis
    using ds d unfolding f uma_casa_decimal_def cr by (simp add: Let_def)
qed

lemma recomendar_carreiras_elemento:
  assumes "s \<in> set (recomendar_carreiras self perfil limite)"
  shows "\<exists>c \<in> set (carreiras self).
           s = formatar_recomendacao (calcular_pontuacao c (Perfil.competencias perfil), c)"
proof -
  let ?res = "map (\<lambda>c. (calcular_pontuacao c (Perfil.competencias perfil), c)) (carreiras self)"
  from assms obtain item where item: "item \<in> set (py_slice_ate (py_sort_reverse fst ?res) limite)"
    and s: "s = formatar_recomendacao item"
    by (auto simp: recomendar_carreiras_def Let_def)
  from item have "item \<in> set (py_sort_reverse fst ?res)"
    by (auto simp: py_slice_ate_def split: if_splits dest: in_set_takeD)
  then have "item \<in> set ?res"
    by (simp add: py_sort_reverse_def)
  with s show ?thesis by auto
qed

text \<open>
  C8. For a profile that records level 5 for the five skills of the data scientist and
  level 1 for every other skill of the catalog, the first entry returned by
  \<^verbatim>\<open>recomendar_carreiras\<close> with the default limit is the text of the data scientist
  with 100.0 percent.
\<close>

theorem recomendacao_ana:
  assumes "niveis_ana (Perfil.competencias perfil)"
  shows "take 1 (recomendar_carreiras sistema_inicial perfil limite_padrao)
           = [''Cientista de Dados - Compatibilidade: 100.0%'']"
proof -
  have "take 1 (recomendar_carreiras sistema_inicial perfil limite_padrao)
          = [formatar_recomendacao (100, cientista_de_dados)]"
    by (simp add: recomendar_carreiras_def carreiras_sistema_inicial pontuacoes_ana [OF assms]
          py_sort_reverse_def py_slice_ate_def limite_padrao_def)
  then show ?thesis
    by (simp add: formatar_recomendacao_def fmt_1f_100 cientista_de_dados_def)
qed

theorem recomendacao_ana_witness:
  "niveis_ana (Perfil.competencias perfil_ana)
   \<and> take 1 (recomendar_carreiras sistema_inicial perfil_ana limite_padrao)
       = [''Cientista de Dados - Compatibilidade: 100.0%'']"
proof -
  have h: "niveis_ana (Perfil.competencias perfil_ana)"
    by (simp add: niveis_ana_def perfil_ana_def nomes_defs)
  from recomendacao_ana [OF h] h show ?thesis by blast
qed

text \<open>
  C9 (as amended). Every text returned by \<^verbatim>\<open>recomendar_carreiras\<close> is the name of a
  career of the catalog, the literal \<^verbatim>\<open> - Compatibilidade: \<close>, the score of that
  career printed with exactly one decimal digit, and the percent sign.
\<close>

theorem recomendar_carreiras_formato:
  assumes "s \<in> set (recomendar_carreiras self perfil limite)"
  shows "\<exists>c \<in> set (carreiras self).
           s = Carreira.nome c @ '' - Compatibilidade: ''
                 @ fmt_1f (calcular_pontuacao c (Perfil.competencias perfil)) @ ''%''
           \<and> uma_casa_decimal (fmt_1f (calcular_pontuacao c (Perfil.competencias perfil)))"
  using recomendar_carreiras_elemento [OF assms]
  by (auto simp: formatar_recomendacao_def fmt_1f_uma_casa)

theorem recomendar_carreiras_formato_witness:
  "''Cientista de Dados - Compatibilidade: 100.0%''
      \<in> set (recomendar_carreiras sistema_inicial perfil_ana 1)
   \<and> (\<exists>c \<in> set (carreiras sistema_inicial).
         ''Cientista de Dados - Compatibilidade: 100.0%''
           = Carreira.nome c @ '' - Compatibilidade: ''
               @ fmt_1f (calcular_pontuacao c (Perfil.competencias perfil_ana)) @ ''%''
         \<and> uma_casa_decimal (fmt_1f (calcular_pontuacao c (Perfil.competencias perfil_ana))))"
proof -
  have h: "''Cientista de Dados - Compatibilidade: 100.0%''
             \<in> set (recomendar_carreiras sistema_inicial perfil_ana 1)"
    by (simp add: recomendar_ana_primeira [OF niveis_ana_perfil_ana])
  from recomendar_carreiras_formato [OF h] h show ?thesis by blast
qed

text \<open>
  The claim as stated names the literal \<^verbatim>\<open> - Compatibility: \<close>; the text returned for
  the data scientist, whose score is 100, is not the text of that form.
\<close>

theorem recomendar_carreiras_nao_compatibility:
  "recomendar_carreiras sistema_inicial perfil_ana 1
     = [''Cientista de Dados - Compatibilidade: 100.0%'']
   \<and> calcular_pontuacao cientista_de_dados (Perfil.competencias perfil_ana) = 100
   \<and> ''Cientista de Dados - Compatibilidade: 100.0%''
       \<noteq> formato_spec (Carreira.nome cientista_de_dados) 100"
proof -
  have a: "recomendar_carreiras sistema_inicial perfil_ana 1
             = [''Cientista de Dados - Compatibilidade: 100.0%'']"
    by (rule recomendar_ana_primeira [OF niveis_ana_perfil_ana])
  have b: "calcular_pontuacao cientista_de_dados (Perfil.competencias perfil_ana) = 100"
    by (rule pontuacoes_ana(1) [OF niveis_ana_perfil_ana])
  have c: "''Cientista de Dados - Compatibilidade: 100.0%''
             \<noteq> formato_spec (Carreira.nome cientista_de_dados) 100"
    by (simp add: formato_spec_def cientista_de_dados_def)
  from a b c show ?thesis by blast
qed

subsection \<open>Registration of a profile\<close>









lemmas py_int_defs =
  py_int_def py_strip_def py_isspace_def py_digitos_def digito_def



subsection \<open>Selection of a profile in the menu\<close>

text \<open>
  The selection fails exactly for a line that is not an integer and for an integer
  above the number of profiles or at most minus that number.
\<close>

lemma escolher_perfil_invalido:
  "escolher_perfil self linha = None \<longleftrightarrow>
     (case py_int (py_strip linha) of
        None \<Rightarrow> True
      | Some idx \<Rightarrow> int (length (perfis self)) < idx \<or> idx \<le> - int (length (perfis self)))"
  by (auto simp: escolher_perfil_def py_index_def split: option.splits)

lemma escolher_perfil_zero:
  "perfis self \<noteq> [] \<Longrightarrow> escolher_perfil self ''0'' = Some (last (perfis self))"
proof -
  assume "perfis self \<noteq> []"
  then obtain p ps where ps: "perfis self = p # ps" by (cases "perfis self") auto
  have "py_int (py_strip ''0'') = Some 0"
    by (simp add: py_int_defs)
  moreover have "py_index (p # ps) (- 1) = Some (last (p # ps))"
    by (simp add: py_index_def last_conv_nth)
  ultimately show ?thesis
    by (simp add: escolher_perfil_def ps)
qed

text \<open>
  C4. The claim is that in the choices 3 and 4 every selection that is not an integer
  from 1 to the number of registered profiles prints \<^verbatim>\<open>Perfil invalido.\<close> and returns
  to the menu without recommendations. The line \<^verbatim>\<open>0\<close> is such a selection, and
  \<^verbatim>\<open>self.perfis[idx - 1]\<close> reads index -1 for it, the last profile: in the session
  below, with one registered profile, both choices answer the selection 0 with the
  recommendations and the learning tracks of that profile, and the text of the invalid
  profile is never printed.
\<close>

theorem selecao_zero_escolhe_ultimo_perfil:
  "(case menu_principal sistema_inicial entrada_zero [] of
      Inl e \<Rightarrow> False
    | Inr (self, entrada, saida) \<Rightarrow>
        perfis self = [perfil_ana]
        \<and> entrada = []
        \<and> texto_perfil_invalido \<notin> set saida
        \<and> ''- Cientista de Dados - Compatibilidade: 100.0%'' \<in> set saida
        \<and> ''- '' @ formatar_trilha criatividade
                     [''Praticar brainstormings e design thinking'',
                      ''Participar de workshops de inova'' @ [CHR 0xE7, CHR 0xE3] @ ''o'']
             \<in> set saida)"
  by code_simp

end
